theory Spec2Isabelle
  imports Main "HOL-Library.Word"
begin

unbundle bit_operations_syntax

section \<open>Timestamps\<close>

text \<open>
  \<^verbatim>\<open>receiver.go\<close> compares and orders values of Go's \<^verbatim>\<open>time.Time\<close>. The
  type and its methods belong to the Go standard library, not to the repository; they are
  written out here as the library defines them, because two things the receiver does depend
  on the representation: \<^verbatim>\<open>!=\<close> against \<^verbatim>\<open>time.Time{}\<close> compares the three struct
  fields, and \<^verbatim>\<open>Before\<close> compares either the monotonic readings or the wall clock.

  \<^verbatim>\<open>type Time struct { wall uint64; ext int64; loc *Location }\<close>

  The location pointer is an address, \<open>None\<close> for \<^verbatim>\<open>nil\<close>.
\<close>

record Time =
  wall :: "64 word"
  ext :: "64 word"
  loc :: "nat option"

definition zeroTime :: Time where
  "zeroTime = \<lparr>wall = 0, ext = 0, loc = None\<rparr>"

definition hasMonotonic :: "64 word" where
  "hasMonotonic = push_bit 63 1"

definition nsecMask :: "64 word" where
  "nsecMask = push_bit 30 1 - 1"

definition nsecShift :: nat where
  "nsecShift = 30"

definition wallToInternal :: "64 word" where
  "wallToInternal = (1884 * 365 + 1884 div 4 - 1884 div 100 + 1884 div 400) * 86400"

text \<open>\<^verbatim>\<open>func (t *Time) nsec() int32 { return int32(t.wall & nsecMask) }\<close>\<close>

definition nsec :: "Time \<Rightarrow> 32 word" where
  "nsec t = ucast (wall t AND nsecMask)"

text \<open>
  \<^verbatim>\<open>
  func (t *Time) sec() int64 {
      if t.wall&hasMonotonic != 0 {
          return wallToInternal + int64(t.wall<<1>>(nsecShift+1))
      }
      return t.ext
  }
  \<close>
\<close>

definition sec :: "Time \<Rightarrow> 64 word" where
  "sec t =
     (if wall t AND hasMonotonic \<noteq> 0
      then wallToInternal + drop_bit (nsecShift + 1) (push_bit 1 (wall t))
      else ext t)"

text \<open>
  \<^verbatim>\<open>
  func (t Time) Before(u Time) bool {
      if t.wall&u.wall&hasMonotonic != 0 {
          return t.ext < u.ext
      }
      ts := t.sec()
      us := u.sec()
      return ts < us || ts == us && t.nsec() < u.nsec()
  }
  \<close>
  \<^verbatim>\<open>ext\<close>, \<^verbatim>\<open>sec()\<close> and \<^verbatim>\<open>nsec()\<close> are signed, so the comparisons are the signed ones.
\<close>

definition Before :: "Time \<Rightarrow> Time \<Rightarrow> bool" where
  "Before t u =
     (if wall t AND wall u AND hasMonotonic \<noteq> 0 then ext t <s ext u
      else (let ts = sec t; us = sec u
            in ts <s us \<or> ts = us \<and> nsec t <s nsec u))"

text \<open>
  The wall-clock reading of a time, in nanoseconds since January 1 of year 1: what
  \<^verbatim>\<open>sec()\<close> and \<^verbatim>\<open>nsec()\<close> denote together. A time built by the library keeps
  \<^verbatim>\<open>nsec()\<close> below one second.
\<close>

definition wallNanos :: "Time \<Rightarrow> int" where
  "wallNanos t = sint (sec t) * 1000000000 + sint (nsec t)"

definition nsecInRange :: "Time \<Rightarrow> bool" where
  "nsecInRange t = (sint (nsec t) < 1000000000)"

text \<open>
  A clock reading after the zero instant, which is what \<^verbatim>\<open>time.Now()\<close> returns on a
  system whose clock is set: either it carries a monotonic reading, and then its wall
  seconds count from 1885, or its wall clock reads after January 1 of year 1.
\<close>

definition realClock :: "Time \<Rightarrow> bool" where
  "realClock now =
     (wall now AND hasMonotonic \<noteq> 0 \<or> nsecInRange now \<and> 0 < wallNanos now)"

section \<open>Events\<close>

text \<open>
  \<^verbatim>\<open>corev1.Event\<close>, with the fields of the event that identify it and the three timestamps
  the receiver reads. \<^verbatim>\<open>metav1.Time\<close> and \<^verbatim>\<open>metav1.MicroTime\<close> wrap a
  \<^verbatim>\<open>time.Time\<close>; the receiver reads the wrapped value (\<^verbatim>\<open>ev.EventTime.Time\<close>), which is
  what the fields hold here.
\<close>

record Event =
  Namespace :: string
  Name :: string
  Reason :: string
  Message :: string
  Count :: "32 word"
  EventTime :: Time
  LastTimestamp :: Time
  FirstTimestamp :: Time

text \<open>
  \<^verbatim>\<open>
  func getEventTimestamp(ev *corev1.Event) time.Time {
      var eventTimestamp time.Time
      switch {
      case ev.EventTime.Time != time.Time{}:
          eventTimestamp = ev.EventTime.Time
      case ev.LastTimestamp.Time != time.Time{}:
          eventTimestamp = ev.LastTimestamp.Time
      case ev.FirstTimestamp.Time != time.Time{}:
          eventTimestamp = ev.FirstTimestamp.Time
      }
      return eventTimestamp
  }
  \<close>
\<close>

definition getEventTimestamp :: "Event \<Rightarrow> Time" where
  "getEventTimestamp ev =
     (let eventTimestamp = zeroTime
      in if EventTime ev \<noteq> zeroTime then EventTime ev
         else if LastTimestamp ev \<noteq> zeroTime then LastTimestamp ev
         else if FirstTimestamp ev \<noteq> zeroTime then FirstTimestamp ev
         else eventTimestamp)"

section \<open>The receiver and what it acts on\<close>

text \<open>Go \<^verbatim>\<open>error\<close> values, and the run-time panics the receiver's statements can raise.\<close>

datatype error = Error string

datatype panic =
  CloseOfClosedChannel
| CloseOfNilChannel
| NilPointerDereference
| InterfaceConversion

text \<open>A \<^verbatim>\<open>k8s.Interface\<close> handle, as \<^verbatim>\<open>getK8sClient\<close> returns it.\<close>

datatype k8sInterface = Clientset nat

text \<open>
  \<^verbatim>\<open>Config\<close> is declared outside \<^verbatim>\<open>receiver.go\<close>; the receiver reads its
  \<^verbatim>\<open>Namespaces\<close> and calls its method \<^verbatim>\<open>getK8sClient()\<close>, whose result (a client or an
  error) is the second field.
\<close>

record Config =
  Namespaces :: "string list"
  getK8sClient :: "error + k8sInterface"

text \<open>
  Modelled from the spec: \<^verbatim>\<open>kube.ExtractionRules\<close> is declared in
  \<^verbatim>\<open>internal/kube\<close>, which is not among the source files. The spec describes it as an
  ordered set of field mappings, each a source field path with a destination attribute
  name. The receiver only stores it and hands it to the transformer.
\<close>

type_synonym ExtractionRules = "(string \<times> string) list"

text \<open>
  \<^verbatim>\<open>
  type k8seventsReceiver struct {
      config          *Config
      options         []option
      rules           kube.ExtractionRules
      settings        receiver.Settings
      logsConsumer    consumer.Logs
      stopperChanList []chan struct{}
      startTime       time.Time
      ctx             context.Context
      cancel          context.CancelFunc
      obsrecv         *receiverhelper.ObsReport
  }
  \<close>
  A channel and a context are named by their index in the tables of the runtime state
  below. \<^verbatim>\<open>logsConsumer\<close> is the downstream capability: what \<^verbatim>\<open>ConsumeLogs\<close> answers
  for a batch, \<open>None\<close> for \<^verbatim>\<open>nil\<close>. The type \<open>'ld\<close> is \<^verbatim>\<open>plog.Logs\<close>.
  \<^verbatim>\<open>options\<close> holds functions on the receiver itself, so it is passed to \<open>Start\<close>
  beside the record; the calls on \<^verbatim>\<open>settings.Logger\<close> and \<^verbatim>\<open>obsrecv\<close> are recorded in
  the runtime state.
\<close>

record 'ld k8seventsReceiver =
  config :: Config
  rules :: ExtractionRules
  logsConsumer :: "'ld \<Rightarrow> error option"
  stopperChanList :: "nat list"
  startTime :: Time
  ctx :: "nat option"
  cancel :: "nat option"

text \<open>
  \<^verbatim>\<open>opt(kr)\<close> is called on the receiver pointer and returns an \<^verbatim>\<open>error\<close>: an option may
  assign any field, and may have done so before it fails.
\<close>

type_synonym 'ld receiverOption =
  "'ld k8seventsReceiver \<Rightarrow> error option \<times> 'ld k8seventsReceiver"

text \<open>
  What the receiver uses of its own package and is not in \<^verbatim>\<open>receiver.go\<close>, taken as
  parameters: \<^verbatim>\<open>createReceiverOpts\<close>, the transformer \<^verbatim>\<open>k8sEventToLogData\<close> (its logger
  argument left out) and the string of \<^verbatim>\<open>metadata.Type\<close>.
\<close>

record 'ld package =
  createReceiverOpts :: "Config \<Rightarrow> 'ld receiverOption list"
  k8sEventToLogData :: "Event \<Rightarrow> ExtractionRules \<Rightarrow> 'ld"
  metadataType :: string

text \<open>
  The calls \<^verbatim>\<open>handleEvent\<close> makes, in the order it makes them: the transformer, the
  instrumentation's \<^verbatim>\<open>StartLogsOp\<close> and \<^verbatim>\<open>EndLogsOp\<close>, and the consumer's
  \<^verbatim>\<open>ConsumeLogs\<close>.
\<close>

datatype 'ld action =
  CallK8sEventToLogData Event
| CallStartLogsOp "nat option"
| CallConsumeLogs 'ld
| CallEndLogsOp string nat "error option"

text \<open>
  The state outside the receiver struct:
  \<^item> \<open>chans\<close>: the channels made so far, \<open>True\<close> while open;
  \<^item> \<open>informers\<close>: one entry per \<^verbatim>\<open>go controller.Run(stopper)\<close>: the client, the
    namespace and the stopper channel of the informer, in the order they were started;
  \<^item> \<open>contexts\<close>: the contexts \<^verbatim>\<open>context.WithCancel\<close> derived, each with its parent
    (\<open>None\<close> for a context given by the host) and whether its cancel function has run;
  \<^item> \<open>reported\<close>: the fatal errors reported to the host through
    \<^verbatim>\<open>componentstatus.ReportStatus\<close>;
  \<^item> \<open>logged\<close>: the messages given to \<^verbatim>\<open>settings.Logger\<close>;
  \<^item> \<open>trace\<close>: the calls of \<^verbatim>\<open>handleEvent\<close>.
\<close>

record 'ld world =
  chans :: "bool list"
  informers :: "(k8sInterface \<times> string \<times> nat) list"
  contexts :: "(nat option \<times> bool) list"
  reported :: "error list"
  logged :: "string list"
  trace :: "'ld action list"

definition emptyWorld :: "'ld world" where
  "emptyWorld =
     \<lparr>chans = [], informers = [], contexts = [], reported = [], logged = [], trace = []\<rparr>"

subsection \<open>Construction\<close>

text \<open>
  \<^verbatim>\<open>
  func newReceiver(set receiver.Settings, config *Config, consumer consumer.Logs,
      options ...option) (receiver.Logs, error) {
      ...
      obsrecv, err := receiverhelper.NewObsReport(...)
      if err != nil {
          return nil, err
      }
      return &k8seventsReceiver{
          settings:     set,
          config:       config,
          options:      options,
          logsConsumer: consumer,
          startTime:    time.Now(),
          obsrecv:      obsrecv,
      }, nil
  }
  \<close>
  \<open>now\<close> is the value \<^verbatim>\<open>time.Now()\<close> returns at the call and \<open>obsErr\<close> the error of
  \<^verbatim>\<open>NewObsReport\<close>. The fields the literal leaves out get their zero values.
\<close>

definition newReceiver ::
  "Time \<Rightarrow> error option \<Rightarrow> Config \<Rightarrow> ('ld \<Rightarrow> error option) \<Rightarrow> error + 'ld k8seventsReceiver"
where
  "newReceiver now obsErr cfg consumer =
     (case obsErr of
        Some err \<Rightarrow> Inl err
      | None \<Rightarrow>
          Inr \<lparr>config = cfg, rules = [], logsConsumer = consumer, stopperChanList = [],
               startTime = now, ctx = None, cancel = None\<rparr>)"

subsection \<open>The flood filter\<close>

text \<open>
  \<^verbatim>\<open>
  func (kr *k8seventsReceiver) allowEvent(ev *corev1.Event) bool {
      eventTimestamp := getEventTimestamp(ev)
      return !eventTimestamp.Before(kr.startTime)
  }
  \<close>
\<close>

definition allowEvent :: "'ld k8seventsReceiver \<Rightarrow> Event \<Rightarrow> bool" where
  "allowEvent kr ev =
     (let eventTimestamp = getEventTimestamp ev
      in \<not> Before eventTimestamp (startTime kr))"

text \<open>
  \<^verbatim>\<open>
  func (kr *k8seventsReceiver) handleEvent(ev *corev1.Event) {
      if kr.allowEvent(ev) {
          ld := k8sEventToLogData(kr.settings.Logger, ev, &kr.rules)

          ctx := kr.obsrecv.StartLogsOp(kr.ctx)
          consumerErr := kr.logsConsumer.ConsumeLogs(ctx, ld)
          kr.obsrecv.EndLogsOp(ctx, metadata.Type.String(), 1, consumerErr)
      }
  }
  \<close>
  The function assigns no field of the receiver and returns nothing: its effect is the
  calls it appends to the trace.
\<close>

definition handleEvent ::
  "'ld package \<Rightarrow> 'ld k8seventsReceiver \<Rightarrow> 'ld world \<Rightarrow> Event \<Rightarrow> 'ld world"
where
  "handleEvent pkg kr w ev =
     (if allowEvent kr ev then
        (let ld = k8sEventToLogData pkg ev (rules kr);
             consumerErr = logsConsumer kr ld
         in w\<lparr>trace := trace w @
              [CallK8sEventToLogData ev,
               CallStartLogsOp (ctx kr),
               CallConsumeLogs ld,
               CallEndLogsOp (metadataType pkg) 1 consumerErr]\<rparr>)
      else w)"

subsection \<open>Watches\<close>

text \<open>
  What an informer hands to a handler is an \<^verbatim>\<open>any\<close>: a pointer to an event, a nil
  \<^verbatim>\<open>*corev1.Event\<close>, or a value of another dynamic type.
\<close>

datatype obj = EventObj Event | NilEventObj | OtherObj

text \<open>
  The two handlers \<^verbatim>\<open>startWatch\<close> registers:
  \<^verbatim>\<open>
  AddFunc: func(obj any) {
      ev := obj.(*corev1.Event)
      kr.handleEvent(ev)
  },
  UpdateFunc: func(_, obj any) {
      ev := obj.(*corev1.Event)
      kr.handleEvent(ev)
  },
  \<close>
  The type assertion panics on another dynamic type. A nil event pointer passes it and
  panics at the first field read, in \<^verbatim>\<open>getEventTimestamp\<close>, before any call is made.
  The closures capture the pointer \<^verbatim>\<open>kr\<close>, so they read the receiver as it is when
  the notification arrives.
\<close>

definition AddFunc ::
  "'ld package \<Rightarrow> 'ld k8seventsReceiver \<Rightarrow> 'ld world \<Rightarrow> obj \<Rightarrow> panic + 'ld world"
where
  "AddFunc pkg kr w x =
     (case x of
        OtherObj \<Rightarrow> Inl InterfaceConversion
      | NilEventObj \<Rightarrow> Inl NilPointerDereference
      | EventObj ev \<Rightarrow> Inr (handleEvent pkg kr w ev))"

definition UpdateFunc ::
  "'ld package \<Rightarrow> 'ld k8seventsReceiver \<Rightarrow> 'ld world \<Rightarrow> obj \<Rightarrow> obj \<Rightarrow> panic + 'ld world"
where
  "UpdateFunc pkg kr w old x =
     (case x of
        OtherObj \<Rightarrow> Inl InterfaceConversion
      | NilEventObj \<Rightarrow> Inl NilPointerDereference
      | EventObj ev \<Rightarrow> Inr (handleEvent pkg kr w ev))"

text \<open>
  \<^verbatim>\<open>
  func (kr *k8seventsReceiver) startWatchingNamespace(clientset k8s.Interface,
      handlers cache.ResourceEventHandlerFuncs, ns string, stopper chan struct{}) {
      client := clientset.CoreV1().RESTClient()
      watchList := cache.NewListWatchFromClient(client, "events", ns, fields.Everything())
      _, controller := cache.NewInformerWithOptions(cache.InformerOptions{
          ListerWatcher: watchList,
          ObjectType:    &corev1.Event{},
          ResyncPeriod:  0,
          Handler:       handlers,
      })
      go controller.Run(stopper)
  }
  \<close>
  The informer runs beside the receiver; starting it adds it to the table. Its handlers
  are always the two closures above, which is how the dispatch below calls them.
\<close>

definition startWatchingNamespace ::
  "'ld world \<Rightarrow> k8sInterface \<Rightarrow> string \<Rightarrow> nat \<Rightarrow> 'ld world"
where
  "startWatchingNamespace w clientset ns stopper =
     w\<lparr>informers := informers w @ [(clientset, ns, stopper)]\<rparr>"

text \<open>
  \<^verbatim>\<open>
  func (kr *k8seventsReceiver) startWatch(ns string, client k8s.Interface) {
      stopperChan := make(chan struct{})
      kr.stopperChanList = append(kr.stopperChanList, stopperChan)
      kr.startWatchingNamespace(client, cache.ResourceEventHandlerFuncs{...}, ns, stopperChan)
  }
  \<close>
\<close>

definition startWatch ::
  "'ld k8seventsReceiver \<times> 'ld world \<Rightarrow> string \<Rightarrow> k8sInterface \<Rightarrow>
   'ld k8seventsReceiver \<times> 'ld world"
where
  "startWatch s ns client =
     (let kr = fst s; w = snd s;
          stopperChan = length (chans w);
          w1 = w\<lparr>chans := chans w @ [True]\<rparr>;
          kr1 = kr\<lparr>stopperChanList := stopperChanList kr @ [stopperChan]\<rparr>
      in (kr1, startWatchingNamespace w1 client ns stopperChan))"

text \<open>\<^verbatim>\<open>corev1.NamespaceAll\<close> is the empty string.\<close>

definition NamespaceAll :: string where
  "NamespaceAll = []"

subsection \<open>Start and Shutdown\<close>

text \<open>The loop over \<^verbatim>\<open>allOptions\<close>: the first option that fails ends it.\<close>

fun applyOptions ::
  "'ld receiverOption list \<Rightarrow> 'ld k8seventsReceiver \<Rightarrow> error option \<times> 'ld k8seventsReceiver"
where
  "applyOptions [] kr = (None, kr)"
| "applyOptions (opt # opts) kr =
     (case opt kr of
        (Some err, kr') \<Rightarrow> (Some err, kr')
      | (None, kr') \<Rightarrow> applyOptions opts kr')"

text \<open>The loop \<^verbatim>\<open>for _, ns := range kr.config.Namespaces { kr.startWatch(ns, k8sInterface) }\<close>.\<close>

fun startWatches ::
  "string list \<Rightarrow> k8sInterface \<Rightarrow> 'ld k8seventsReceiver \<times> 'ld world \<Rightarrow>
   'ld k8seventsReceiver \<times> 'ld world"
where
  "startWatches [] client s = s"
| "startWatches (ns # nss) client s = startWatches nss client (startWatch s ns client)"

text \<open>
  \<^verbatim>\<open>
  func (kr *k8seventsReceiver) Start(ctx context.Context, host component.Host) error {
      kr.ctx, kr.cancel = context.WithCancel(ctx)

      allOptions := append(createReceiverOpts(kr.config), kr.options...)

      for _, opt := range allOptions {
          if err := opt(kr); err != nil {
              kr.settings.Logger.Error("Could not apply option", zap.Error(err))
              componentstatus.ReportStatus(host, componentstatus.NewFatalErrorEvent(err))
              return err
          }
      }

      k8sInterface, err := kr.config.getK8sClient()
      if err != nil {
          return err
      }

      kr.settings.Logger.Info("starting to watch namespaces for the events.")
      if len(kr.config.Namespaces) == 0 {
          kr.startWatch(corev1.NamespaceAll, k8sInterface)
      } else {
          for _, ns := range kr.config.Namespaces {
              kr.startWatch(ns, k8sInterface)
          }
      }

      return nil
  }
  \<close>
  \<open>options\<close> is the field \<^verbatim>\<open>kr.options\<close> and \<open>parent\<close> the context argument.
\<close>

definition Start ::
  "'ld package \<Rightarrow> 'ld receiverOption list \<Rightarrow> nat option \<Rightarrow>
   'ld k8seventsReceiver \<times> 'ld world \<Rightarrow>
   error option \<times> 'ld k8seventsReceiver \<times> 'ld world"
where
  "Start pkg options parent s =
     (let kr = fst s; w = snd s;
          c = length (contexts w);
          w1 = w\<lparr>contexts := contexts w @ [(parent, False)]\<rparr>;
          kr1 = kr\<lparr>ctx := Some c, cancel := Some c\<rparr>;
          allOptions = createReceiverOpts pkg (config kr1) @ options
      in case applyOptions allOptions kr1 of
           (Some err, kr2) \<Rightarrow>
             (Some err, kr2,
              w1\<lparr>reported := reported w1 @ [err],
                 logged := logged w1 @ [''Could not apply option'']\<rparr>)
         | (None, kr2) \<Rightarrow>
             (case getK8sClient (config kr2) of
                Inl err \<Rightarrow> (Some err, kr2, w1)
              | Inr k8sInterface \<Rightarrow>
                  (let w2 = w1\<lparr>logged := logged w1 @
                              [''starting to watch namespaces for the events.'']\<rparr>;
                       s3 = (if length (Namespaces (config kr2)) = 0
                             then startWatch (kr2, w2) NamespaceAll k8sInterface
                             else startWatches (Namespaces (config kr2)) k8sInterface (kr2, w2))
                   in (None, fst s3, snd s3))))"

text \<open>
  \<^verbatim>\<open>close(stopperChan)\<close>, for each channel of the list in turn. Closing a closed channel
  panics, and so does closing a nil channel (here: an index no \<^verbatim>\<open>make\<close> returned).
\<close>

fun closeAll :: "nat list \<Rightarrow> bool list \<Rightarrow> panic + bool list" where
  "closeAll [] cs = Inr cs"
| "closeAll (stopperChan # rest) cs =
     (if length cs \<le> stopperChan then Inl CloseOfNilChannel
      else if \<not> cs ! stopperChan then Inl CloseOfClosedChannel
      else closeAll rest (cs[stopperChan := False]))"

text \<open>Running a cancel function marks its context; running it again changes nothing.\<close>

definition runCancel :: "nat \<Rightarrow> (nat option \<times> bool) list \<Rightarrow> (nat option \<times> bool) list" where
  "runCancel c cxs = (if c < length cxs then cxs[c := (fst (cxs ! c), True)] else cxs)"

text \<open>
  \<^verbatim>\<open>
  func (kr *k8seventsReceiver) Shutdown(context.Context) error {
      if kr.cancel == nil {
          return nil
      }
      // Stop watching all the namespaces by closing all the stopper channels.
      for _, stopperChan := range kr.stopperChanList {
          close(stopperChan)
      }
      kr.cancel()
      return nil
  }
  \<close>
  \<open>Shutdown\<close> assigns no field of the receiver. Its result is a panic, or the error it
  returns with the runtime state it leaves.
\<close>

definition Shutdown ::
  "'ld k8seventsReceiver \<Rightarrow> 'ld world \<Rightarrow> panic + (error option \<times> 'ld world)"
where
  "Shutdown kr w =
     (case cancel kr of
        None \<Rightarrow> Inr (None, w)
      | Some c \<Rightarrow>
          (case closeAll (stopperChanList kr) (chans w) of
             Inl p \<Rightarrow> Inl p
           | Inr cs \<Rightarrow> Inr (None, w\<lparr>chans := cs, contexts := runCancel c (contexts w)\<rparr>)))"

subsection \<open>Notifications and the life of a receiver\<close>

text \<open>
  The informers deliver "added" and "updated" notifications; only an informer that was
  started has handlers to call. \<open>dispatch\<close> is the call the informer with index \<open>i\<close>
  makes for a notification, \<open>None\<close> when there is no such informer.
\<close>

datatype notification = Added obj | Updated obj obj

definition dispatch ::
  "'ld package \<Rightarrow> 'ld k8seventsReceiver \<Rightarrow> 'ld world \<Rightarrow> nat \<Rightarrow> notification \<Rightarrow>
   (panic + 'ld world) option"
where
  "dispatch pkg kr w i n =
     (if i < length (informers w)
      then Some (case n of
                   Added x \<Rightarrow> AddFunc pkg kr w x
                 | Updated old x \<Rightarrow> UpdateFunc pkg kr w old x)
      else None)"

text \<open>
  What happens to a receiver after its construction: the host calls \<^verbatim>\<open>Start\<close> and
  \<^verbatim>\<open>Shutdown\<close>, and the informers deliver notifications. A panic ends the run, and a
  notification from an informer that does not exist is no step at all.
\<close>

datatype call = CallStart "nat option" | CallShutdown | Notify nat notification

fun step ::
  "'ld package \<Rightarrow> 'ld receiverOption list \<Rightarrow> call \<Rightarrow>
   'ld k8seventsReceiver \<times> 'ld world \<Rightarrow> panic + 'ld k8seventsReceiver \<times> 'ld world"
where
  "step pkg options (CallStart parent) s =
     (case Start pkg options parent s of (err, kr', w') \<Rightarrow> Inr (kr', w'))"
| "step pkg options CallShutdown s =
     (case Shutdown (fst s) (snd s) of
        Inl p \<Rightarrow> Inl p
      | Inr (err, w') \<Rightarrow> Inr (fst s, w'))"
| "step pkg options (Notify i n) s =
     (case dispatch pkg (fst s) (snd s) i n of
        None \<Rightarrow> Inr s
      | Some (Inl p) \<Rightarrow> Inl p
      | Some (Inr w') \<Rightarrow> Inr (fst s, w'))"

fun run ::
  "'ld package \<Rightarrow> 'ld receiverOption list \<Rightarrow> call list \<Rightarrow>
   'ld k8seventsReceiver \<times> 'ld world \<Rightarrow> panic + 'ld k8seventsReceiver \<times> 'ld world"
where
  "run pkg options [] s = Inr s"
| "run pkg options (c # cs) s =
     (case step pkg options c s of
        Inl p \<Rightarrow> Inl p
      | Inr s' \<Rightarrow> run pkg options cs s')"

text \<open>
  The options are functions outside \<^verbatim>\<open>receiver.go\<close>. No statement of
  \<^verbatim>\<open>receiver.go\<close> assigns \<^verbatim>\<open>startTime\<close> after \<^verbatim>\<open>newReceiver\<close>; this says the same
  of the options: those of the package, for every configuration, and those given to the
  receiver.
\<close>

definition optionsKeepStartTime :: "'ld package \<Rightarrow> 'ld receiverOption list \<Rightarrow> bool" where
  "optionsKeepStartTime pkg options =
     (\<forall>c. \<forall>opt\<in>set (createReceiverOpts pkg c @ options). \<forall>k.
        startTime (snd (opt k)) = startTime k)"

section \<open>Example values\<close>

text \<open>A start time, a receiver, an event and a package to evaluate the definitions on.\<close>

definition exampleStart :: Time where
  "exampleStart = \<lparr>wall = 5, ext = 63000000000, loc = None\<rparr>"

text \<open>
  A start time as \<^verbatim>\<open>time.Now()\<close> builds it: the monotonic flag, the seconds since 1885
  in the wall word, and the monotonic reading in \<^verbatim>\<open>ext\<close>.
\<close>

definition monotonicStart :: Time where
  "monotonicStart = \<lparr>wall = hasMonotonic OR push_bit 30 4500000000 OR 7, ext = 1000, loc = Some 1\<rparr>"

definition exampleReceiver :: "Time \<Rightarrow> nat k8seventsReceiver" where
  "exampleReceiver T =
     \<lparr>config = \<lparr>Namespaces = [], getK8sClient = Inr (Clientset 0)\<rparr>, rules = [],
      logsConsumer = (\<lambda>_. None), stopperChanList = [], startTime = T,
      ctx = None, cancel = None\<rparr>"

definition exampleEvent :: "Time \<Rightarrow> Time \<Rightarrow> Time \<Rightarrow> Event" where
  "exampleEvent a b c =
     \<lparr>Namespace = ''default'', Name = ''pod.1'', Reason = ''Scheduled'', Message = ''ok'',
      Count = 1, EventTime = a, LastTimestamp = b, FirstTimestamp = c\<rparr>"

definition examplePackage :: "nat package" where
  "examplePackage =
     \<lparr>createReceiverOpts = (\<lambda>cfg. []),
      k8sEventToLogData = (\<lambda>ev rs. length (Message ev) + length rs),
      metadataType = ''k8s_events''\<rparr>"

text \<open>Two options: one stores extraction rules, as the options built from a configuration
  do, and one fails.\<close>

definition withRules :: "ExtractionRules \<Rightarrow> nat receiverOption" where
  "withRules rs = (\<lambda>kr. (None, kr\<lparr>rules := rs\<rparr>))"

definition failingOption :: "nat receiverOption" where
  "failingOption = (\<lambda>kr. (Some (Error ''bad field''), kr))"

text \<open>A package whose \<^verbatim>\<open>createReceiverOpts\<close> yields one option.\<close>

definition rulesPackage :: "nat package" where
  "rulesPackage =
     \<lparr>createReceiverOpts = (\<lambda>cfg. [withRules [(''reason'', ''k8s.event.reason'')]]),
      k8sEventToLogData = (\<lambda>ev rs. length (Message ev) + length rs),
      metadataType = ''k8s_events''\<rparr>"

text \<open>Receivers configured with two namespaces, with a client that cannot be built, and
  with a consumer that refuses every batch.\<close>

definition namespacedReceiver :: "nat k8seventsReceiver" where
  "namespacedReceiver =
     (exampleReceiver monotonicStart)
       \<lparr>config := \<lparr>Namespaces = [''a'', ''b''], getK8sClient = Inr (Clientset 0)\<rparr>\<rparr>"

definition clientlessReceiver :: "nat k8seventsReceiver" where
  "clientlessReceiver =
     (exampleReceiver monotonicStart)
       \<lparr>config := \<lparr>Namespaces = [''a''], getK8sClient = Inl (Error ''no cluster'')\<rparr>\<rparr>"

definition refusedReceiver :: "nat k8seventsReceiver" where
  "refusedReceiver =
     (exampleReceiver exampleStart)\<lparr>logsConsumer := (\<lambda>ld. Some (Error ''queue full''))\<rparr>"

text \<open>The example receiver after a \<^verbatim>\<open>Start\<close> that succeeds.\<close>

definition startedState :: "error option \<times> nat k8seventsReceiver \<times> nat world" where
  "startedState = Start examplePackage [] None (exampleReceiver monotonicStart, emptyWorld)"

section \<open>Properties of the time representation\<close>

lemma nsecMask_mask: "nsecMask = mask 30"
  by (simp add: nsecMask_def mask_eq_exp_minus_1)

lemma wallToInternal_val: "wallToInternal = 59453308800"
  by (simp add: wallToInternal_def)

lemma sint_small:
  fixes x :: "'a::len word"
  assumes "uint x < 2 ^ (LENGTH('a) - 1)"
  shows "sint x = uint x"
proof -
  have "- (2 ^ (LENGTH('a) - Suc 0)) \<le> (0::int)" by simp
  also have "0 \<le> uint x" by simp
  finally have lo: "- (2 ^ (LENGTH('a) - Suc 0)) \<le> uint x" .
  have hi: "uint x < 2 ^ (LENGTH('a) - Suc 0)" using assms by simp
  show ?thesis
    unfolding sint_uint using lo hi by (rule signed_take_bit_int_eq_self)
qed

lemma sint_nsec: "sint (nsec t) = uint (wall t AND mask 30)"
proof -
  let ?x = "wall t AND mask 30"
  have b: "uint ?x < 2 ^ 30" by (rule and_mask_lt_2p)
  have u: "uint (ucast ?x :: 32 word) = uint ?x"
    using b by (simp add: unsigned_ucast_eq take_bit_int_eq_self)
  have "uint (ucast ?x :: 32 word) < 2 ^ (LENGTH(32) - 1)"
    using b u by simp
  then have "sint (ucast ?x :: 32 word) = uint (ucast ?x :: 32 word)"
    by (rule sint_small)
  then show ?thesis
    unfolding nsec_def nsecMask_mask using u by simp
qed

lemma nsec_nonneg: "0 \<le> sint (nsec t)"
  by (simp add: sint_nsec)

lemma drop_bit_31_bound: "uint (drop_bit 31 (x :: 64 word)) < 2 ^ 33"
proof -
  have "uint (drop_bit 31 x) = uint x div 2 ^ 31"
    by (simp add: drop_bit_eq_div uint_div)
  moreover have "uint x < 2 ^ 64" using uint_bounded [of x] by simp
  ultimately show ?thesis by simp
qed

lemma sec_monotonic_lower:
  assumes "wall t AND hasMonotonic \<noteq> 0"
  shows "59453308800 \<le> sint (sec t)"
proof -
  let ?d = "drop_bit 31 (push_bit 1 (wall t)) :: 64 word"
  have d: "uint ?d < 2 ^ 33" by (rule drop_bit_31_bound)
  have w: "uint (59453308800 :: 64 word) = 59453308800" by simp
  have s: "uint (59453308800 + ?d) = 59453308800 + uint ?d"
    using d w by (simp add: uint_plus_if')
  have "uint (59453308800 + ?d) < 2 ^ (LENGTH(64) - 1)"
    using s d by simp
  then have "sint (59453308800 + ?d) = uint (59453308800 + ?d)"
    by (rule sint_small)
  then show ?thesis
    using assms s by (simp add: sec_def wallToInternal_val nsecShift_def)
qed

lemma lex_nanos:
  "0 \<le> n1 \<Longrightarrow> n1 < (1000000000::int) \<Longrightarrow> 0 \<le> n2 \<Longrightarrow> n2 < 1000000000 \<Longrightarrow>
   (s1 * 1000000000 + n1 < s2 * 1000000000 + n2) = (s1 < s2 \<or> s1 = s2 \<and> n1 < n2)"
  by linarith

lemma Before_wall:
  assumes "wall t AND wall u AND hasMonotonic = 0" "nsecInRange t" "nsecInRange u"
  shows "Before t u = (wallNanos t < wallNanos u)"
proof -
  have n: "0 \<le> sint (nsec t)" "0 \<le> sint (nsec u)" by (simp_all add: sint_nsec)
  have e: "(sec t = sec u) = (sint (sec t) = sint (sec u))" by (auto dest: signed_word_eqI)
  show ?thesis
    using assms n lex_nanos [of "sint (nsec t)" "sint (nsec u)" "sint (sec t)" "sint (sec u)"]
    by (simp add: Before_def Let_def wallNanos_def nsecInRange_def word_sless_alt e)
qed

lemma Before_monotonic:
  "wall t AND wall u AND hasMonotonic \<noteq> 0 \<Longrightarrow> Before t u = (sint (ext t) < sint (ext u))"
  by (simp add: Before_def word_sless_alt)

lemma Before_irrefl: "\<not> Before t t"
  by (simp add: Before_def Let_def)

lemma wallNanos_zeroTime: "wallNanos zeroTime = 0"
  by (simp add: wallNanos_def zeroTime_def sec_def nsec_def)

lemma nsecInRange_zeroTime: "nsecInRange zeroTime"
  by (simp add: nsecInRange_def zeroTime_def nsec_def)

lemma Before_zeroTime_monotonic:
  assumes "wall u AND hasMonotonic \<noteq> 0"
  shows "Before zeroTime u"
proof -
  have p: "0 < sint (sec u)" using sec_monotonic_lower [OF assms] by simp
  have w: "wall zeroTime = 0" by (simp add: zeroTime_def)
  have s: "sec zeroTime = 0" by (simp add: sec_def zeroTime_def)
  show ?thesis
    unfolding Before_def Let_def w s using p by (simp add: word_sless_alt)
qed

section \<open>The timestamp resolver and the flood filter\<close>

text \<open>
  C1. \<^verbatim>\<open>getEventTimestamp\<close> returns \<^verbatim>\<open>EventTime\<close> if it is not the zero
  \<^verbatim>\<open>time.Time\<close>, otherwise \<^verbatim>\<open>LastTimestamp\<close> if that is not the zero value, otherwise
  \<^verbatim>\<open>FirstTimestamp\<close> if that is not the zero value, otherwise the zero value. It is a
  function of the event alone and has a result for every event; the result is the zero
  value exactly when all three fields are.
\<close>

theorem getEventTimestamp_priority:
  "getEventTimestamp ev =
     (if EventTime ev \<noteq> zeroTime then EventTime ev
      else if LastTimestamp ev \<noteq> zeroTime then LastTimestamp ev
      else if FirstTimestamp ev \<noteq> zeroTime then FirstTimestamp ev
      else zeroTime)
   \<and> (getEventTimestamp ev = zeroTime) =
       (EventTime ev = zeroTime \<and> LastTimestamp ev = zeroTime \<and> FirstTimestamp ev = zeroTime)"
  by (simp add: getEventTimestamp_def)

lemma getEventTimestamp_example: "getEventTimestamp (exampleEvent zeroTime \<lparr>wall = 4, ext = 63000000000, loc = None\<rparr> zeroTime)
   = \<lparr>wall = 4, ext = 63000000000, loc = None\<rparr>"
  by (simp add: exampleEvent_def getEventTimestamp_def zeroTime_def)

lemma hasMonotonic_val: "hasMonotonic = 9223372036854775808"
  by (simp add: hasMonotonic_def)

text \<open>
  C2. \<^verbatim>\<open>allowEvent\<close> accepts an event if and only if its resolved timestamp is not
  before the receiver's start time, in the sense of \<^verbatim>\<open>time.Time.Before\<close>. An event
  whose resolved timestamp is the start time itself is accepted. When the event's
  timestamp and the start time do not both carry a monotonic reading (a timestamp
  decoded from the API server carries none), this is the order of the wall clocks: the
  event is accepted exactly when its wall-clock reading is at least that of the start
  time, so an event \<open>d > 0\<close> nanoseconds before the start time is rejected. When
  both carry a monotonic reading, it is the order of the monotonic readings, and again an
  event \<open>d > 0\<close> nanoseconds before the start time is rejected.
\<close>

theorem allowEvent_not_earlier:
  fixes kr :: "'ld k8seventsReceiver" and ev :: Event and d :: int
  defines "T \<equiv> startTime kr" and "ts \<equiv> getEventTimestamp ev"
  shows "allowEvent kr ev = (\<not> Before ts T)
    \<and> (ts = T \<longrightarrow> allowEvent kr ev)
    \<and> (wall ts AND wall T AND hasMonotonic = 0 \<and> nsecInRange ts \<and> nsecInRange T \<longrightarrow>
         allowEvent kr ev = (wallNanos T \<le> wallNanos ts))
    \<and> (wall ts AND wall T AND hasMonotonic = 0 \<and> nsecInRange ts \<and> nsecInRange T \<and>
         0 < d \<and> wallNanos ts = wallNanos T - d \<longrightarrow> \<not> allowEvent kr ev)
    \<and> (wall ts AND wall T AND hasMonotonic \<noteq> 0 \<longrightarrow>
         allowEvent kr ev = (sint (ext T) \<le> sint (ext ts)))
    \<and> (wall ts AND wall T AND hasMonotonic \<noteq> 0 \<and>
         0 < d \<and> sint (ext ts) = sint (ext T) - d \<longrightarrow> \<not> allowEvent kr ev)"
proof -
  have a: "allowEvent kr ev = (\<not> Before ts T)"
    by (simp add: allowEvent_def T_def ts_def)
  have w: "allowEvent kr ev = (wallNanos T \<le> wallNanos ts)"
    if "wall ts AND wall T AND hasMonotonic = 0" "nsecInRange ts" "nsecInRange T"
  proof -
    have "Before ts T = (wallNanos ts < wallNanos T)"
      using that by (rule Before_wall)
    then show ?thesis using a by auto
  qed
  have m: "allowEvent kr ev = (sint (ext T) \<le> sint (ext ts))"
    if "wall ts AND wall T AND hasMonotonic \<noteq> 0"
    using a Before_monotonic [OF that] by auto
  show ?thesis
    using a w m by (auto simp: Before_irrefl)
qed

theorem allowEvent_not_earlier_witness:
  "getEventTimestamp (exampleEvent exampleStart zeroTime zeroTime) = startTime (exampleReceiver exampleStart)
   \<and> allowEvent (exampleReceiver exampleStart) (exampleEvent exampleStart zeroTime zeroTime)
   \<and> wall (getEventTimestamp (exampleEvent zeroTime \<lparr>wall = 4, ext = 63000000000, loc = None\<rparr> zeroTime))
        AND wall (startTime (exampleReceiver exampleStart)) AND hasMonotonic = 0
   \<and> nsecInRange (getEventTimestamp (exampleEvent zeroTime \<lparr>wall = 4, ext = 63000000000, loc = None\<rparr> zeroTime))
   \<and> nsecInRange (startTime (exampleReceiver exampleStart))
   \<and> wallNanos (getEventTimestamp (exampleEvent zeroTime \<lparr>wall = 4, ext = 63000000000, loc = None\<rparr> zeroTime))
        = wallNanos (startTime (exampleReceiver exampleStart)) - 1
   \<and> \<not> allowEvent (exampleReceiver exampleStart)
          (exampleEvent zeroTime \<lparr>wall = 4, ext = 63000000000, loc = None\<rparr> zeroTime)"
proof -
  let ?kr = "exampleReceiver exampleStart :: nat k8seventsReceiver"
  let ?e1 = "exampleEvent exampleStart zeroTime zeroTime"
  let ?e2 = "exampleEvent zeroTime \<lparr>wall = 4, ext = 63000000000, loc = None\<rparr> zeroTime"
  have t1: "getEventTimestamp ?e1 = startTime ?kr"
    by (simp add: exampleEvent_def exampleReceiver_def exampleStart_def getEventTimestamp_def
        zeroTime_def)
  have h1: "wall (getEventTimestamp ?e2) AND wall (startTime ?kr) AND hasMonotonic = 0"
    by (simp add: getEventTimestamp_example hasMonotonic_val exampleReceiver_def
        exampleStart_def)
  have h2: "nsecInRange (getEventTimestamp ?e2)"
    by (simp add: getEventTimestamp_example nsecInRange_def nsec_def nsecMask_def)
  have h3: "nsecInRange (startTime ?kr)"
    by (simp add: exampleReceiver_def exampleStart_def nsecInRange_def nsec_def nsecMask_def)
  have h4: "wallNanos (getEventTimestamp ?e2) = wallNanos (startTime ?kr) - 1"
    by (simp add: getEventTimestamp_example exampleReceiver_def exampleStart_def wallNanos_def sec_def nsec_def
        nsecMask_def hasMonotonic_val)
  have h0: "(0::int) < 1" by simp
  have r1: "allowEvent ?kr ?e1"
    using allowEvent_not_earlier [where kr = ?kr and ev = ?e1 and d = 1] t1 by blast
  have r2: "\<not> allowEvent ?kr ?e2"
    using allowEvent_not_earlier [where kr = ?kr and ev = ?e2 and d = 1] h0 h1 h2 h3 h4
    by blast
  show ?thesis
    using t1 r1 h1 h2 h3 h4 r2 by blast
qed


text \<open>
  An event without any timestamp resolves to the zero time, so it is rejected exactly when
  the zero time is before the start time, as it is before every real clock reading.
\<close>

lemma allowEvent_absent_iff:
  fixes kr :: "'ld k8seventsReceiver"
  assumes "EventTime ev = zeroTime" and "LastTimestamp ev = zeroTime"
    and "FirstTimestamp ev = zeroTime"
  shows "(\<not> allowEvent kr ev) = Before zeroTime (startTime kr)"
  using assms by (simp add: allowEvent_def getEventTimestamp_def)

lemma Before_zeroTime_realClock:
  assumes "realClock now"
  shows "Before zeroTime now"
proof (cases "wall now AND hasMonotonic \<noteq> 0")
  case True
  then show ?thesis by (rule Before_zeroTime_monotonic)
next
  case False
  then have r: "nsecInRange now" and p: "0 < wallNanos now"
    using assms by (auto simp: realClock_def)
  have z: "wall zeroTime AND wall now AND hasMonotonic = 0"
    by (simp add: zeroTime_def)
  show ?thesis
    using Before_wall [OF z nsecInRange_zeroTime r] p by (simp add: wallNanos_zeroTime)
qed

lemma realClock_monotonicStart: "realClock monotonicStart"
  by (simp add: realClock_def monotonicStart_def hasMonotonic_val)

lemma realClock_exampleStart: "realClock exampleStart"
  by (simp add: realClock_def exampleStart_def nsecInRange_def wallNanos_def sec_def nsec_def
      nsecMask_def hasMonotonic_val)

section \<open>Start\<close>

text \<open>The loops of \<^verbatim>\<open>Start\<close> in closed form.\<close>

lemma startWatch_eq:
  "startWatch (kr, w) ns client =
     (kr\<lparr>stopperChanList := stopperChanList kr @ [length (chans w)]\<rparr>,
      w\<lparr>chans := chans w @ [True],
        informers := informers w @ [(client, ns, length (chans w))]\<rparr>)"
  by (simp add: startWatch_def startWatchingNamespace_def Let_def)

lemma startWatches_eq:
  "startWatches nss client (kr, w) =
     (kr\<lparr>stopperChanList :=
          stopperChanList kr @ [length (chans w)..<length (chans w) + length nss]\<rparr>,
      w\<lparr>chans := chans w @ replicate (length nss) True,
        informers := informers w @
          map (\<lambda>(ns, c). (client, ns, c))
            (zip nss [length (chans w)..<length (chans w) + length nss])\<rparr>)"
proof (induction nss arbitrary: kr w)
  case Nil
  then show ?case by simp
next
  case (Cons ns nss)
  have u: "[n..<Suc (n + k)] = n # [Suc n..<Suc (n + k)]" for n k :: nat
    by (simp add: upt_conv_Cons)
  show ?case
    by (simp add: startWatch_eq Cons.IH u replicate_app_Cons_same del: upt_Suc)
qed

lemma newReceiver_example:
  "newReceiver T None \<lparr>Namespaces = [], getK8sClient = Inr (Clientset 0)\<rparr> (\<lambda>_. None)
     = Inr (exampleReceiver T)"
  by (simp add: newReceiver_def exampleReceiver_def)

lemma newReceiver_startTime:
  "newReceiver now obsErr cfg consumer = Inr kr0 \<Longrightarrow>
   startTime kr0 = now \<and> stopperChanList kr0 = []"
  by (auto simp: newReceiver_def split: option.splits)

lemma applyOptions_frame:
  assumes "\<And>opt k. opt \<in> set opts \<Longrightarrow> f (snd (opt k)) = f k"
  shows "f (snd (applyOptions opts kr)) = f kr"
  using assms
proof (induction opts arbitrary: kr)
  case Nil
  then show ?case by simp
next
  case (Cons opt opts)
  have h: "f (snd (opt kr)) = f kr" using Cons.prems by simp
  show ?case
  proof (cases "opt kr")
    case (Pair e kr')
    have k: "f kr' = f kr" using h Pair by simp
    show ?thesis
    proof (cases e)
      case None
      have "f (snd (applyOptions opts kr')) = f kr'"
        using Cons.IH Cons.prems by simp
      then show ?thesis using Pair None k by simp
    next
      case (Some err)
      then show ?thesis using Pair k by simp
    qed
  qed
qed

lemma startWatches_startTime:
  "startTime (fst (startWatches nss client (kr, w))) = startTime kr"
  by (simp add: startWatches_eq)

lemma Start_cases:
  fixes kr :: "'ld k8seventsReceiver" and w :: "'ld world" and parent :: "nat option"
    and pkg :: "'ld package" and options :: "'ld receiverOption list"
  defines "kr1 \<equiv> kr\<lparr>ctx := Some (length (contexts w)), cancel := Some (length (contexts w))\<rparr>"
  defines "w1 \<equiv> w\<lparr>contexts := contexts w @ [(parent, False)]\<rparr>"
  defines "r \<equiv> applyOptions (createReceiverOpts pkg (config kr) @ options) kr1"
  shows "Start pkg options parent (kr, w) =
    (case fst r of
       Some err \<Rightarrow> (Some err, snd r,
          w1\<lparr>reported := reported w1 @ [err], logged := logged w1 @ [''Could not apply option'']\<rparr>)
     | None \<Rightarrow>
        (case getK8sClient (config (snd r)) of
           Inl err \<Rightarrow> (Some err, snd r, w1)
         | Inr client \<Rightarrow>
            (let s3 = startWatches
                  (if Namespaces (config (snd r)) = [] then [NamespaceAll]
                   else Namespaces (config (snd r))) client
                  (snd r, w1\<lparr>logged := logged w1 @
                     [''starting to watch namespaces for the events.'']\<rparr>)
             in (None, fst s3, snd s3))))"
  unfolding kr1_def w1_def r_def
  by (cases "applyOptions (createReceiverOpts pkg (config kr) @ options)
        (kr\<lparr>ctx := Some (length (contexts w)), cancel := Some (length (contexts w))\<rparr>)")
     (simp add: Start_def Let_def split: option.splits sum.splits)

text \<open>
  C5. When every option succeeds and the client is obtained, \<^verbatim>\<open>Start\<close> returns
  \<^verbatim>\<open>nil\<close> and starts one informer per namespace of the configuration, in its order, or
  one informer on \<^verbatim>\<open>NamespaceAll\<close> when the configuration names none. Each informer
  gets a new open stopper channel, appended to \<^verbatim>\<open>stopperChanList\<close> in the same order.
\<close>

theorem Start_establishes_watches:
  fixes kr :: "'ld k8seventsReceiver" and w :: "'ld world" and parent :: "nat option"
    and pkg :: "'ld package" and options :: "'ld receiverOption list"
  defines "kr1 \<equiv> kr\<lparr>ctx := Some (length (contexts w)), cancel := Some (length (contexts w))\<rparr>"
  defines "r \<equiv> applyOptions (createReceiverOpts pkg (config kr) @ options) kr1"
  defines "nss \<equiv> (if Namespaces (config (snd r)) = [] then [NamespaceAll]
                   else Namespaces (config (snd r)))"
  defines "n \<equiv> length (chans w)"
  assumes "fst r = None" and "getK8sClient (config (snd r)) = Inr client"
  shows "\<exists>kr' w'. Start pkg options parent (kr, w) = (None, kr', w')
    \<and> informers w' =
        informers w @ map (\<lambda>(ns, c). (client, ns, c)) (zip nss [n..<n + length nss])
    \<and> stopperChanList kr' = stopperChanList (snd r) @ [n..<n + length nss]
    \<and> chans w' = chans w @ replicate (length nss) True
    \<and> length (informers w') = length (informers w) + length nss"
  using assms(5,6) unfolding Start_cases kr1_def r_def nss_def n_def
  by (simp add: startWatches_eq Let_def)

theorem Start_establishes_watches_witness:
  "(\<exists>kr' w'. Start rulesPackage [] None (namespacedReceiver, emptyWorld) = (None, kr', w')
      \<and> informers w' = [(Clientset 0, ''a'', 0), (Clientset 0, ''b'', 1)]
      \<and> stopperChanList kr' = [0, 1] \<and> chans w' = [True, True])
   \<and> (\<exists>kr' w'. Start rulesPackage [] None (exampleReceiver monotonicStart, emptyWorld)
          = (None, kr', w')
      \<and> informers w' = [(Clientset 0, NamespaceAll, 0)]
      \<and> stopperChanList kr' = [0] \<and> chans w' = [True])"
proof -
  let ?w = "emptyWorld :: nat world"
  let ?c = "length (contexts ?w)"
  let ?k2 = "exampleReceiver monotonicStart :: nat k8seventsReceiver"
  let ?r1 = "applyOptions (createReceiverOpts rulesPackage (config namespacedReceiver) @ [])
               (namespacedReceiver\<lparr>ctx := Some ?c, cancel := Some ?c\<rparr>)"
  let ?r2 = "applyOptions (createReceiverOpts rulesPackage (config ?k2) @ [])
               (?k2\<lparr>ctx := Some ?c, cancel := Some ?c\<rparr>)"
  have a1: "fst ?r1 = None"
    by (simp add: rulesPackage_def withRules_def)
  have b1: "getK8sClient (config (snd ?r1)) = Inr (Clientset 0)"
    by (simp add: rulesPackage_def withRules_def namespacedReceiver_def)
  let ?q1 = "applyOptions (createReceiverOpts rulesPackage (config namespacedReceiver))
               (namespacedReceiver\<lparr>ctx := Some ?c, cancel := Some ?c\<rparr>)"
  let ?q2 = "applyOptions (createReceiverOpts rulesPackage (config ?k2))
               (?k2\<lparr>ctx := Some ?c, cancel := Some ?c\<rparr>)"
  have n1: "Namespaces (config (snd ?q1)) = [''a'', ''b'']"
    by (simp add: rulesPackage_def withRules_def namespacedReceiver_def)
  have s1: "stopperChanList (snd ?q1) = []"
    by (simp add: rulesPackage_def withRules_def namespacedReceiver_def exampleReceiver_def)
  have a2: "fst ?r2 = None"
    by (simp add: rulesPackage_def withRules_def)
  have b2: "getK8sClient (config (snd ?r2)) = Inr (Clientset 0)"
    by (simp add: rulesPackage_def withRules_def exampleReceiver_def)
  have n2: "Namespaces (config (snd ?q2)) = []"
    by (simp add: rulesPackage_def withRules_def exampleReceiver_def)
  have s2: "stopperChanList (snd ?q2) = []"
    by (simp add: rulesPackage_def withRules_def exampleReceiver_def)
  have e: "chans ?w = []" "informers ?w = []"
    by (simp_all add: emptyWorld_def)
  have u: "[0..<2] = [0, Suc 0]" by (simp add: upt_conv_Cons)
  have 1: "\<exists>kr' w'. Start rulesPackage [] None (namespacedReceiver, ?w) = (None, kr', w')
      \<and> informers w' = [(Clientset 0, ''a'', 0), (Clientset 0, ''b'', 1)]
      \<and> stopperChanList kr' = [0, 1] \<and> chans w' = [True, True]"
    using Start_establishes_watches [OF a1 b1, of None]
    apply (simp add: n1 s1 e u)
    apply blast
    done
  have 2: "\<exists>kr' w'. Start rulesPackage [] None (?k2, ?w) = (None, kr', w')
      \<and> informers w' = [(Clientset 0, NamespaceAll, 0)]
      \<and> stopperChanList kr' = [0] \<and> chans w' = [True]"
    using Start_establishes_watches [OF a2 b2, of None]
    apply (simp add: n2 s2 e)
    apply blast
    done
  show ?thesis using 1 2 by blast
qed

lemma applyOptions_first_failure:
  "applyOptions pre kr = (None, krp) \<Longrightarrow> opt krp = (Some err, kr2) \<Longrightarrow>
   applyOptions (pre @ opt # post) kr = (Some err, kr2)"
proof (induction pre arbitrary: kr)
  case Nil
  then show ?case by simp
next
  case (Cons p pre)
  obtain e k where pk: "p kr = (e, k)" by (cases "p kr")
  show ?case
  proof (cases e)
    case None
    then have "applyOptions pre k = (None, krp)"
      using Cons.prems(1) pk by simp
    then have "applyOptions (pre @ opt # post) k = (Some err, kr2)"
      using Cons.prems(2) by (rule Cons.IH)
    then show ?thesis using pk None by simp
  next
    case (Some x)
    then show ?thesis using Cons.prems(1) pk by simp
  qed
qed

text \<open>
  C6. When an option fails, after the options before it have succeeded, or when every
  option succeeds and the client cannot be obtained, \<^verbatim>\<open>Start\<close> returns that error,
  with the receiver as the failing option (or the last option) left it: no later option
  is applied and no informer is started. The informers, the channels and the trace are as
  before, and \<^verbatim>\<open>Start\<close> appends nothing to \<^verbatim>\<open>stopperChanList\<close>, which is therefore
  what it was before \<^verbatim>\<open>Start\<close> when the options leave it alone. With no informer
  running, no notification reaches a handler.
\<close>

theorem Start_failure_no_watch:
  fixes kr :: "'ld k8seventsReceiver" and w :: "'ld world" and parent :: "nat option"
    and pkg :: "'ld package" and options :: "'ld receiverOption list"
  defines "kr1 \<equiv> kr\<lparr>ctx := Some (length (contexts w)), cancel := Some (length (contexts w))\<rparr>"
  defines "allOptions \<equiv> createReceiverOpts pkg (config kr) @ options"
  assumes "allOptions = pre @ opt # post \<and> applyOptions pre kr1 = (None, krp)
             \<and> opt krp = (Some err, kr2)
           \<or> applyOptions allOptions kr1 = (None, kr2)
             \<and> getK8sClient (config kr2) = Inl err"
  shows "\<exists>w'. Start pkg options parent (kr, w) = (Some err, kr2, w')
    \<and> informers w' = informers w \<and> chans w' = chans w \<and> trace w' = trace w
    \<and> ((\<forall>opt\<in>set allOptions. \<forall>k. stopperChanList (snd (opt k)) = stopperChanList k) \<longrightarrow>
         stopperChanList kr2 = stopperChanList kr)
    \<and> (informers w = [] \<longrightarrow> (\<forall>i n. dispatch pkg kr2 w' i n = None))"
proof -
  let ?r = "applyOptions allOptions kr1"
  have f: "stopperChanList (snd ?r) = stopperChanList kr"
    if "\<forall>opt\<in>set allOptions. \<forall>k. stopperChanList (snd (opt k)) = stopperChanList k"
  proof -
    have "stopperChanList (snd (applyOptions allOptions kr1)) = stopperChanList kr1"
      using that by (intro applyOptions_frame) simp
    then show ?thesis by (simp add: kr1_def)
  qed
  from assms(3) show ?thesis
  proof
    assume a: "allOptions = pre @ opt # post \<and> applyOptions pre kr1 = (None, krp)
                 \<and> opt krp = (Some err, kr2)"
    then have "applyOptions (pre @ opt # post) kr1 = (Some err, kr2)"
      by (intro applyOptions_first_failure) auto
    then have r: "?r = (Some err, kr2)" using a by simp
    show ?thesis
      using f r unfolding Start_cases allOptions_def kr1_def
      by (simp add: dispatch_def)
  next
    assume "applyOptions allOptions kr1 = (None, kr2) \<and> getK8sClient (config kr2) = Inl err"
    then show ?thesis
      using f unfolding Start_cases allOptions_def kr1_def
      by (simp add: dispatch_def)
  qed
qed

theorem Start_failure_no_watch_witness:
  "(\<exists>w'. Start rulesPackage [failingOption, withRules [(''x'', ''y'')], failingOption] None
            (namespacedReceiver, emptyWorld)
          = (Some (Error ''bad field''),
             namespacedReceiver\<lparr>ctx := Some 0, cancel := Some 0,
               rules := [(''reason'', ''k8s.event.reason'')]\<rparr>, w')
      \<and> informers w' = [] \<and> chans w' = []
      \<and> (\<forall>i n. dispatch rulesPackage
            (namespacedReceiver\<lparr>ctx := Some 0, cancel := Some 0,
               rules := [(''reason'', ''k8s.event.reason'')]\<rparr>) w' i n = None))
   \<and> (\<exists>w'. Start examplePackage [] None (clientlessReceiver, emptyWorld)
          = (Some (Error ''no cluster''), clientlessReceiver\<lparr>ctx := Some 0, cancel := Some 0\<rparr>, w')
      \<and> informers w' = [] \<and> chans w' = []
      \<and> stopperChanList (clientlessReceiver\<lparr>ctx := Some 0, cancel := Some 0\<rparr>) = [])"
proof -
  let ?w = "emptyWorld :: nat world"
  let ?c = "length (contexts ?w)"
  let ?k1 = "namespacedReceiver\<lparr>ctx := Some ?c, cancel := Some ?c\<rparr>"
  let ?kp = "namespacedReceiver\<lparr>ctx := Some 0, cancel := Some 0,
               rules := [(''reason'', ''k8s.event.reason'')]\<rparr>"
  let ?post = "[withRules [(''x'', ''y'')], failingOption]"
  let ?k3 = "clientlessReceiver\<lparr>ctx := Some ?c, cancel := Some ?c\<rparr>"
  let ?k4 = "clientlessReceiver\<lparr>ctx := Some 0, cancel := Some 0\<rparr>"
  have e: "chans ?w = []" "informers ?w = []" "contexts ?w = []"
    by (simp_all add: emptyWorld_def)
  have a1: "createReceiverOpts rulesPackage (config namespacedReceiver)
              @ [failingOption, withRules [(''x'', ''y'')], failingOption]
            = [withRules [(''reason'', ''k8s.event.reason'')]] @ failingOption # ?post
          \<and> applyOptions [withRules [(''reason'', ''k8s.event.reason'')]] ?k1 = (None, ?kp)
          \<and> failingOption ?kp = (Some (Error ''bad field''), ?kp)
          \<or> applyOptions (createReceiverOpts rulesPackage (config namespacedReceiver)
              @ [failingOption, withRules [(''x'', ''y'')], failingOption]) ?k1 = (None, ?kp)
          \<and> getK8sClient (config ?kp) = Inl (Error ''bad field'')"
    by (simp add: rulesPackage_def withRules_def failingOption_def e)
  have a2: "createReceiverOpts examplePackage (config clientlessReceiver) @ []
            = [] @ failingOption # []
          \<and> applyOptions [] ?k3 = (None, ?k4)
          \<and> failingOption ?k4 = (Some (Error ''no cluster''), ?k4)
          \<or> applyOptions (createReceiverOpts examplePackage (config clientlessReceiver) @ [])
               ?k3 = (None, ?k4)
          \<and> getK8sClient (config ?k4) = Inl (Error ''no cluster'')"
    by (simp add: examplePackage_def clientlessReceiver_def e)
  have s2: "stopperChanList clientlessReceiver = []"
    by (simp add: clientlessReceiver_def exampleReceiver_def)
  have 1: "\<exists>w'. Start rulesPackage [failingOption, withRules [(''x'', ''y'')], failingOption] None
            (namespacedReceiver, ?w) = (Some (Error ''bad field''), ?kp, w')
      \<and> informers w' = [] \<and> chans w' = []
      \<and> (\<forall>i n. dispatch rulesPackage ?kp w' i n = None)"
    using Start_failure_no_watch [OF a1, of None]
    by (auto simp: e)
  have 2: "\<exists>w'. Start examplePackage [] None (clientlessReceiver, ?w)
          = (Some (Error ''no cluster''), ?k4, w')
      \<and> informers w' = [] \<and> chans w' = []
      \<and> stopperChanList ?k4 = []"
    using Start_failure_no_watch [OF a2, of None] s2
    by (auto simp: e)
  show ?thesis using 1 2 by blast
qed

lemma Start_startTime:
  assumes "optionsKeepStartTime pkg options"
  shows "startTime (fst (snd (Start pkg options parent s))) = startTime (fst s)"
proof -
  obtain kr w where s: "s = (kr, w)" by (cases s)
  let ?kr1 = "kr\<lparr>ctx := Some (length (contexts w)), cancel := Some (length (contexts w))\<rparr>"
  let ?r = "applyOptions (createReceiverOpts pkg (config kr) @ options) ?kr1"
  have "startTime (snd ?r) = startTime ?kr1"
    using assms unfolding optionsKeepStartTime_def by (intro applyOptions_frame) blast
  then have k: "startTime (snd ?r) = startTime kr" by simp
  show ?thesis
    unfolding s Start_cases using k
    by (simp add: startWatches_eq Let_def split: option.splits sum.splits)
qed

lemma step_startTime:
  assumes "optionsKeepStartTime pkg options"
    and "step pkg options c s = Inr s'"
  shows "startTime (fst s') = startTime (fst s)"
proof (cases c)
  case (CallStart parent)
  then show ?thesis
    using assms(2) Start_startTime [OF assms(1), of parent s]
    by (auto split: prod.splits)
next
  case CallShutdown
  then show ?thesis using assms(2) by (auto split: sum.splits prod.splits)
next
  case (Notify i n)
  then show ?thesis using assms(2) by (auto split: option.splits sum.splits)
qed

lemma run_startTime:
  assumes "optionsKeepStartTime pkg options"
  shows "run pkg options cs s = Inr s' \<Longrightarrow> startTime (fst s') = startTime (fst s)"
proof (induction cs arbitrary: s)
  case Nil
  then show ?case by simp
next
  case (Cons c cs)
  from Cons.prems obtain s1 where 1: "step pkg options c s = Inr s1"
    and 2: "run pkg options cs s1 = Inr s'"
    by (auto split: sum.splits)
  have "startTime (fst s1) = startTime (fst s)"
    using assms 1 by (rule step_startTime)
  then show ?case using Cons.IH [OF 2] by simp
qed

lemma optionsKeepStartTime_rulesPackage: "optionsKeepStartTime rulesPackage []"
  by (simp add: optionsKeepStartTime_def rulesPackage_def withRules_def)

text \<open>
  C3. A receiver built by \<^verbatim>\<open>newReceiver\<close> has the clock reading of its construction
  as start time. When that reading is a real one, an event whose three timestamp fields
  are all the zero value is rejected by \<^verbatim>\<open>allowEvent\<close>: on the receiver as built, and
  on the receiver after any sequence of \<^verbatim>\<open>Start\<close>, \<^verbatim>\<open>Shutdown\<close> and notifications
  with options that do not assign \<^verbatim>\<open>startTime\<close>, where \<^verbatim>\<open>handleEvent\<close> then leaves
  the runtime state unchanged.
\<close>

theorem absent_timestamps_rejected:
  fixes kr0 :: "'ld k8seventsReceiver"
  assumes "EventTime ev = zeroTime" and "LastTimestamp ev = zeroTime"
    and "FirstTimestamp ev = zeroTime"
    and "newReceiver now obsErr cfg consumer = Inr kr0"
    and "realClock now"
  shows "\<not> allowEvent kr0 ev
    \<and> (\<forall>pkg options cs w0 kr w.
          optionsKeepStartTime pkg options \<and> run pkg options cs (kr0, w0) = Inr (kr, w) \<longrightarrow>
          \<not> allowEvent kr ev \<and> handleEvent pkg kr w ev = w)"
proof -
  have b: "Before zeroTime now"
    using assms(5) by (rule Before_zeroTime_realClock)
  have s0: "startTime kr0 = now"
    using newReceiver_startTime [OF assms(4)] by simp
  have 0: "\<not> allowEvent kr0 ev"
    using allowEvent_absent_iff [OF assms(1-3), of kr0] b s0 by simp
  have 1: "\<not> allowEvent kr ev \<and> handleEvent pkg kr w ev = w"
    if k: "optionsKeepStartTime pkg options" and r: "run pkg options cs (kr0, w0) = Inr (kr, w)"
    for pkg :: "'ld package" and options cs w0 kr w
  proof -
    have "startTime (fst (kr, w)) = startTime (fst (kr0, w0))"
      using k r by (rule run_startTime)
    then have "startTime kr = now" using s0 by simp
    then have "\<not> allowEvent kr ev"
      using allowEvent_absent_iff [OF assms(1-3), of kr] b by simp
    then show ?thesis by (simp add: handleEvent_def)
  qed
  show ?thesis using 0 1 by blast
qed

theorem absent_timestamps_rejected_witness:
  "EventTime (exampleEvent zeroTime zeroTime zeroTime) = zeroTime
   \<and> LastTimestamp (exampleEvent zeroTime zeroTime zeroTime) = zeroTime
   \<and> FirstTimestamp (exampleEvent zeroTime zeroTime zeroTime) = zeroTime
   \<and> newReceiver monotonicStart None \<lparr>Namespaces = [], getK8sClient = Inr (Clientset 0)\<rparr>
        (\<lambda>_. None) = Inr (exampleReceiver monotonicStart)
   \<and> realClock monotonicStart
   \<and> newReceiver exampleStart None \<lparr>Namespaces = [], getK8sClient = Inr (Clientset 0)\<rparr>
        (\<lambda>_. None) = Inr (exampleReceiver exampleStart)
   \<and> realClock exampleStart
   \<and> \<not> allowEvent (exampleReceiver monotonicStart) (exampleEvent zeroTime zeroTime zeroTime)
   \<and> \<not> allowEvent (exampleReceiver exampleStart) (exampleEvent zeroTime zeroTime zeroTime)"
proof -
  let ?ev = "exampleEvent zeroTime zeroTime zeroTime"
  let ?k1 = "exampleReceiver monotonicStart :: nat k8seventsReceiver"
  let ?k2 = "exampleReceiver exampleStart :: nat k8seventsReceiver"
  have e: "EventTime ?ev = zeroTime" "LastTimestamp ?ev = zeroTime"
    "FirstTimestamp ?ev = zeroTime"
    by (simp_all add: exampleEvent_def)
  have n1: "newReceiver monotonicStart None \<lparr>Namespaces = [], getK8sClient = Inr (Clientset 0)\<rparr>
        (\<lambda>_. None) = Inr ?k1"
    by (rule newReceiver_example)
  have n2: "newReceiver exampleStart None \<lparr>Namespaces = [], getK8sClient = Inr (Clientset 0)\<rparr>
        (\<lambda>_. None) = Inr ?k2"
    by (rule newReceiver_example)
  have r1: "\<not> allowEvent ?k1 ?ev"
    using absent_timestamps_rejected [OF e n1 realClock_monotonicStart] by blast
  have r2: "\<not> allowEvent ?k2 ?ev"
    using absent_timestamps_rejected [OF e n2 realClock_exampleStart] by blast
  show ?thesis
    using e n1 n2 realClock_monotonicStart realClock_exampleStart r1 r2 by blast
qed

text \<open>
  C7. \<^verbatim>\<open>newReceiver\<close> stores the time of the construction as \<^verbatim>\<open>startTime\<close>, on a
  receiver that has no stopper channel yet. After any sequence of \<^verbatim>\<open>Start\<close>,
  \<^verbatim>\<open>Shutdown\<close> and notifications that ends without a panic, with options that do not
  assign \<^verbatim>\<open>startTime\<close>, the field still holds that time, and the notification of
  every informer for an event, added or updated, is filtered against it: when the event's
  timestamp is before that time the runtime state is unchanged, and otherwise the event
  is transformed and delivered once, with exactly the four calls of \<^verbatim>\<open>handleEvent\<close>
  appended to the trace, whatever the informer.
\<close>

theorem startTime_captured_once:
  assumes "newReceiver now obsErr cfg consumer = Inr kr0"
    and "optionsKeepStartTime pkg options"
    and "run pkg options cs (kr0, w0) = Inr (kr, w)"
  shows "startTime kr0 = now \<and> stopperChanList kr0 = [] \<and> startTime kr = now
    \<and> (\<forall>ev. allowEvent kr ev = (\<not> Before (getEventTimestamp ev) now))
    \<and> (\<forall>ev. handleEvent pkg kr w ev =
          (if Before (getEventTimestamp ev) now then w
           else w\<lparr>trace := trace w @
                  [CallK8sEventToLogData ev,
                   CallStartLogsOp (ctx kr),
                   CallConsumeLogs (k8sEventToLogData pkg ev (rules kr)),
                   CallEndLogsOp (metadataType pkg) 1
                     (logsConsumer kr (k8sEventToLogData pkg ev (rules kr)))]\<rparr>))
    \<and> (\<forall>i ev. i < length (informers w) \<longrightarrow>
          dispatch pkg kr w i (Added (EventObj ev)) =
            Some (Inr (if Before (getEventTimestamp ev) now then w
                       else w\<lparr>trace := trace w @
                  [CallK8sEventToLogData ev,
                   CallStartLogsOp (ctx kr),
                   CallConsumeLogs (k8sEventToLogData pkg ev (rules kr)),
                   CallEndLogsOp (metadataType pkg) 1
                     (logsConsumer kr (k8sEventToLogData pkg ev (rules kr)))]\<rparr>)))
    \<and> (\<forall>i old ev. i < length (informers w) \<longrightarrow>
          dispatch pkg kr w i (Updated old (EventObj ev)) =
            Some (Inr (if Before (getEventTimestamp ev) now then w
                       else w\<lparr>trace := trace w @
                  [CallK8sEventToLogData ev,
                   CallStartLogsOp (ctx kr),
                   CallConsumeLogs (k8sEventToLogData pkg ev (rules kr)),
                   CallEndLogsOp (metadataType pkg) 1
                     (logsConsumer kr (k8sEventToLogData pkg ev (rules kr)))]\<rparr>)))"
proof -
  have 0: "startTime kr0 = now" "stopperChanList kr0 = []"
    using newReceiver_startTime [OF assms(1)] by simp_all
  have "startTime (fst (kr, w)) = startTime (fst (kr0, w0))"
    using assms(2,3) by (rule run_startTime)
  then have 1: "startTime kr = now" using 0 by simp
  have 2: "allowEvent kr ev = (\<not> Before (getEventTimestamp ev) now)" for ev
    using 1 by (simp add: allowEvent_def)
  have 3: "handleEvent pkg kr w ev =
          (if Before (getEventTimestamp ev) now then w
           else w\<lparr>trace := trace w @
                  [CallK8sEventToLogData ev,
                   CallStartLogsOp (ctx kr),
                   CallConsumeLogs (k8sEventToLogData pkg ev (rules kr)),
                   CallEndLogsOp (metadataType pkg) 1
                     (logsConsumer kr (k8sEventToLogData pkg ev (rules kr)))]\<rparr>)" for ev
    using 2 by (simp add: handleEvent_def Let_def)
  have 4: "dispatch pkg kr w i (Added (EventObj ev)) = Some (Inr (handleEvent pkg kr w ev))"
    if "i < length (informers w)" for i ev
    using that by (simp add: dispatch_def AddFunc_def)
  have 5: "dispatch pkg kr w i (Updated old (EventObj ev)) = Some (Inr (handleEvent pkg kr w ev))"
    if "i < length (informers w)" for i old ev
    using that by (simp add: dispatch_def UpdateFunc_def)
  show ?thesis
    using 0 1 2 by (simp add: 3 [symmetric] 4 5)
qed

theorem startTime_captured_once_witness:
  "newReceiver monotonicStart None \<lparr>Namespaces = [], getK8sClient = Inr (Clientset 0)\<rparr>
     (\<lambda>_. None) = Inr (exampleReceiver monotonicStart)
   \<and> optionsKeepStartTime rulesPackage []
   \<and> (\<exists>kr w. run rulesPackage []
         [CallStart None, Notify 0 (Added (EventObj (exampleEvent zeroTime zeroTime zeroTime))),
          CallShutdown]
         (exampleReceiver monotonicStart, emptyWorld) = Inr (kr, w)
       \<and> startTime kr = monotonicStart
       \<and> dispatch rulesPackage kr w 0
            (Added (EventObj (exampleEvent zeroTime zeroTime exampleStart))) = Some (Inr w)
       \<and> dispatch rulesPackage kr w 0
            (Updated OtherObj (EventObj (exampleEvent monotonicStart zeroTime exampleStart))) =
           Some (Inr (w\<lparr>trace := trace w @
             [CallK8sEventToLogData (exampleEvent monotonicStart zeroTime exampleStart),
              CallStartLogsOp (Some 0),
              CallConsumeLogs 3,
              CallEndLogsOp ''k8s_events'' 1 None]\<rparr>)))"
proof -
  let ?cs = "[CallStart None, Notify 0 (Added (EventObj (exampleEvent zeroTime zeroTime zeroTime))),
          CallShutdown]"
  let ?k0 = "exampleReceiver monotonicStart :: nat k8seventsReceiver"
  let ?kr = "?k0\<lparr>rules := [(''reason'', ''k8s.event.reason'')], stopperChanList := [0],
              ctx := Some 0, cancel := Some 0\<rparr>"
  let ?w = "\<lparr>chans = [False], informers = [(Clientset 0, NamespaceAll, 0)],
            contexts = [(None, True)], reported = [],
            logged = [''starting to watch namespaces for the events.''],
            trace = ([] :: nat action list)\<rparr>"
  let ?acc = "exampleEvent monotonicStart zeroTime exampleStart"
  have n: "newReceiver monotonicStart None \<lparr>Namespaces = [], getK8sClient = Inr (Clientset 0)\<rparr>
     (\<lambda>_. None) = Inr ?k0"
    by (rule newReceiver_example)
  have m: "wall monotonicStart AND hasMonotonic \<noteq> 0"
    by (simp add: monotonicStart_def hasMonotonic_val)
  have z: "getEventTimestamp (exampleEvent zeroTime zeroTime zeroTime) = zeroTime"
    by (simp add: exampleEvent_def getEventTimestamp_def)
  have bz: "Before (getEventTimestamp (exampleEvent zeroTime zeroTime zeroTime)) monotonicStart"
    unfolding z using m by (rule Before_zeroTime_monotonic)
  have r: "run rulesPackage [] ?cs (?k0, emptyWorld) = Inr (?kr, ?w)"
    by (simp add: Start_def Shutdown_def startWatch_eq rulesPackage_def withRules_def
        exampleReceiver_def emptyWorld_def runCancel_def Let_def dispatch_def AddFunc_def
        handleEvent_def allowEvent_def bz)
  have b: "Before (getEventTimestamp (exampleEvent zeroTime zeroTime exampleStart)) monotonicStart"
    by (simp add: exampleEvent_def getEventTimestamp_def zeroTime_def exampleStart_def
        monotonicStart_def Before_def sec_def nsec_def hasMonotonic_val nsecMask_def
        wallToInternal_val nsecShift_def Let_def word_sless_alt)
  have nz: "monotonicStart \<noteq> zeroTime"
    by (simp add: monotonicStart_def zeroTime_def)
  have ta: "getEventTimestamp ?acc = monotonicStart"
    using nz by (simp add: exampleEvent_def getEventTimestamp_def)
  have a: "\<not> Before (getEventTimestamp ?acc) monotonicStart"
    unfolding ta by (rule Before_irrefl)
  note t = startTime_captured_once [OF n optionsKeepStartTime_rulesPackage r]
  have 1: "startTime ?kr = monotonicStart" using t by blast
  have 2: "dispatch rulesPackage ?kr ?w 0
            (Added (EventObj (exampleEvent zeroTime zeroTime exampleStart))) = Some (Inr ?w)"
    using t b by simp
  have 3: "dispatch rulesPackage ?kr ?w 0 (Updated OtherObj (EventObj ?acc)) =
           Some (Inr (?w\<lparr>trace := trace ?w @
             [CallK8sEventToLogData ?acc, CallStartLogsOp (Some 0), CallConsumeLogs 3,
              CallEndLogsOp ''k8s_events'' 1 None]\<rparr>))"
    using t a by (simp add: rulesPackage_def exampleReceiver_def exampleEvent_def)
  show ?thesis
    using n optionsKeepStartTime_rulesPackage r 1 2 3 by blast
qed

section \<open>Shutdown\<close>

text \<open>What \<^verbatim>\<open>close\<close> leaves, and what a second round of it finds.\<close>

lemma closeAll_length: "closeAll xs cs = Inr cs' \<Longrightarrow> length cs' = length cs"
  by (induction xs arbitrary: cs) (auto split: if_splits)

lemma closeAll_stays_closed:
  "closeAll xs cs = Inr cs' \<Longrightarrow> i < length cs \<Longrightarrow> \<not> cs ! i \<Longrightarrow> \<not> cs' ! i"
proof (induction xs arbitrary: cs)
  case Nil
  then show ?case by simp
next
  case (Cons x xs)
  from Cons.prems(1) have x: "x < length cs"
    and r: "closeAll xs (cs[x := False]) = Inr cs'"
    by (auto split: if_splits)
  have "\<not> (cs[x := False]) ! i"
    using Cons.prems(2,3) x by (simp add: nth_list_update)
  then show ?case
    using Cons.IH [OF r] Cons.prems(2) by simp
qed

lemma closeAll_closes_head:
  assumes "closeAll (x # xs) cs = Inr cs'"
  shows "x < length cs' \<and> \<not> cs' ! x"
proof -
  from assms have x: "x < length cs" and r: "closeAll xs (cs[x := False]) = Inr cs'"
    by (auto split: if_splits)
  have "\<not> (cs[x := False]) ! x" using x by simp
  then have "\<not> cs' ! x"
    using closeAll_stays_closed [OF r] x by simp
  then show ?thesis
    using closeAll_length [OF r] x by simp
qed

lemma closeAll_again_panics:
  assumes "closeAll xs cs = Inr cs'" and "xs \<noteq> []"
  shows "closeAll xs cs' = Inl CloseOfClosedChannel"
proof -
  obtain x rest where xs: "xs = x # rest" using assms(2) by (cases xs) auto
  have "x < length cs' \<and> \<not> cs' ! x"
    using assms(1) unfolding xs by (rule closeAll_closes_head)
  then show ?thesis by (simp add: xs)
qed

lemma closeAll_open_distinct:
  "distinct xs \<Longrightarrow> \<forall>x\<in>set xs. x < length cs \<and> cs ! x \<Longrightarrow>
   \<exists>cs'. closeAll xs cs = Inr cs'"
proof (induction xs arbitrary: cs)
  case Nil
  then show ?case by simp
next
  case (Cons x xs)
  have "\<forall>y\<in>set xs. y < length (cs[x := False]) \<and> (cs[x := False]) ! y"
    using Cons.prems by (auto simp: nth_list_update)
  then have "\<exists>cs'. closeAll xs (cs[x := False]) = Inr cs'"
    using Cons.IH Cons.prems(1) by simp
  then show ?case using Cons.prems(2) by simp
qed

lemma Shutdown_no_handles:
  "stopperChanList kr = [] \<Longrightarrow> \<exists>w'. Shutdown kr w = Inr (None, w')"
  by (simp add: Shutdown_def split: option.splits)

lemma closeAll_closes_all:
  "closeAll xs cs = Inr cs' \<Longrightarrow> x \<in> set xs \<Longrightarrow> \<not> cs' ! x"
proof (induction xs arbitrary: cs)
  case Nil
  then show ?case by simp
next
  case (Cons y ys)
  show ?case
  proof (cases "x = y")
    case True
    then show ?thesis using closeAll_closes_head [OF Cons.prems(1)] by simp
  next
    case False
    from Cons.prems(1) have "closeAll ys (cs[y := False]) = Inr cs'"
      by (auto split: if_splits)
    then show ?thesis using Cons.IH Cons.prems(2) False by auto
  qed
qed

lemma startedState_eq:
  "startedState =
     (None,
      (exampleReceiver monotonicStart)\<lparr>stopperChanList := [0], ctx := Some 0, cancel := Some 0\<rparr>,
      \<lparr>chans = [True], informers = [(Clientset 0, NamespaceAll, 0)],
       contexts = [(None, False)], reported = [],
       logged = [''starting to watch namespaces for the events.''], trace = []\<rparr>)"
  by (simp add: startedState_def Start_def startWatch_eq examplePackage_def exampleReceiver_def
      emptyWorld_def Let_def)

text \<open>
  \<^verbatim>\<open>Shutdown\<close> on a receiver whose \<^verbatim>\<open>cancel\<close> is nil, as before the first
  \<^verbatim>\<open>Start\<close>, returns \<^verbatim>\<open>nil\<close> and changes nothing, however often it is called.
\<close>

theorem Shutdown_not_started: "cancel kr = None \<Longrightarrow> Shutdown kr w = Inr (None, w)"
  by (simp add: Shutdown_def)

theorem Shutdown_not_started_witness:
  "cancel (exampleReceiver monotonicStart) = None
   \<and> Shutdown (exampleReceiver monotonicStart) emptyWorld = Inr (None, emptyWorld)
   \<and> run examplePackage [] [CallShutdown, CallShutdown]
        (exampleReceiver monotonicStart, emptyWorld)
      = Inr (exampleReceiver monotonicStart, emptyWorld)"
proof -
  let ?k = "exampleReceiver monotonicStart :: nat k8seventsReceiver"
  have c: "cancel ?k = None" by (simp add: exampleReceiver_def)
  have s: "Shutdown ?k emptyWorld = Inr (None, emptyWorld)"
    using c by (rule Shutdown_not_started)
  show ?thesis using c s by simp
qed

text \<open>When \<^verbatim>\<open>Shutdown\<close> returns, the error it returns is \<^verbatim>\<open>nil\<close>.\<close>

theorem Shutdown_returns_nil: "Shutdown kr w = Inr (err, w') \<Longrightarrow> err = None"
  by (auto simp: Shutdown_def split: option.splits sum.splits)

theorem Shutdown_returns_nil_witness:
  "\<exists>w'. Shutdown (fst (snd startedState)) (snd (snd startedState)) = Inr (None, w')"
proof -
  let ?k = "fst (snd startedState)" and ?w = "snd (snd startedState)"
  have "\<exists>e w'. Shutdown ?k ?w = Inr (e, w')"
    by (simp add: startedState_eq Shutdown_def)
  then obtain e w' where s: "Shutdown ?k ?w = Inr (e, w')" by blast
  have "e = None" using s by (rule Shutdown_returns_nil)
  then show ?thesis using s by blast
qed

text \<open>
  The first \<^verbatim>\<open>Shutdown\<close> after a \<^verbatim>\<open>Start\<close> that succeeded, on a receiver whose
  options left no stopper channel and kept the cancel function: it returns \<^verbatim>\<open>nil\<close>
  without a panic, every stopper channel of the receiver is closed, and the informers and
  the trace are as before.
\<close>

theorem Shutdown_after_Start_returns:
  fixes kr :: "'ld k8seventsReceiver" and w :: "'ld world" and parent :: "nat option"
    and pkg :: "'ld package" and options :: "'ld receiverOption list"
  defines "kr1 \<equiv> kr\<lparr>ctx := Some (length (contexts w)), cancel := Some (length (contexts w))\<rparr>"
  defines "r \<equiv> applyOptions (createReceiverOpts pkg (config kr) @ options) kr1"
  defines "s \<equiv> Start pkg options parent (kr, w)"
  assumes "fst r = None" and "getK8sClient (config (snd r)) = Inr client"
    and "stopperChanList (snd r) = []" and "cancel (snd r) = Some c"
  shows "\<exists>w'. Shutdown (fst (snd s)) (snd (snd s)) = Inr (None, w')
    \<and> stopperChanList (fst (snd s)) \<noteq> []
    \<and> (\<forall>x\<in>set (stopperChanList (fst (snd s))). \<not> chans w' ! x)
    \<and> informers w' = informers (snd (snd s)) \<and> trace w' = trace (snd (snd s))"
proof -
  let ?nss = "if Namespaces (config (snd r)) = [] then [NamespaceAll]
              else Namespaces (config (snd r))"
  let ?n = "length (chans w)"
  let ?kr = "fst (snd s)" and ?w = "snd (snd s)"
  have l: "stopperChanList ?kr = [?n..<?n + length ?nss]"
    and ch: "chans ?w = chans w @ replicate (length ?nss) True"
    and ca: "cancel ?kr = Some c"
    using assms(4-7) unfolding s_def Start_cases r_def kr1_def
    by (simp_all add: startWatches_eq Let_def)
  have ne: "stopperChanList ?kr \<noteq> []" unfolding l by simp
  have d: "distinct (stopperChanList ?kr)" unfolding l by simp
  have o: "\<forall>x\<in>set (stopperChanList ?kr). x < length (chans ?w) \<and> chans ?w ! x"
    unfolding l ch by (auto simp: nth_append)
  obtain cs where cs: "closeAll (stopperChanList ?kr) (chans ?w) = Inr cs"
    using closeAll_open_distinct [OF d o] by blast
  have "\<forall>x\<in>set (stopperChanList ?kr). \<not> cs ! x"
    using closeAll_closes_all [OF cs] by blast
  then show ?thesis
    using ne ca cs by (simp add: Shutdown_def)
qed

theorem Shutdown_after_Start_returns_witness:
  "\<exists>w'. Shutdown (fst (snd startedState)) (snd (snd startedState)) = Inr (None, w')
     \<and> stopperChanList (fst (snd startedState)) = [0] \<and> \<not> chans w' ! 0"
proof -
  let ?w = "emptyWorld :: nat world"
  let ?c = "length (contexts ?w)"
  let ?k = "exampleReceiver monotonicStart :: nat k8seventsReceiver"
  let ?r = "applyOptions (createReceiverOpts examplePackage (config ?k) @ [])
              (?k\<lparr>ctx := Some ?c, cancel := Some ?c\<rparr>)"
  have v: "?r = (None, ?k\<lparr>ctx := Some 0, cancel := Some 0\<rparr>)"
    by (simp add: examplePackage_def emptyWorld_def)
  have a: "fst ?r = None" unfolding v by simp
  have b: "getK8sClient (config (snd ?r)) = Inr (Clientset 0)"
    unfolding v by (simp add: exampleReceiver_def)
  have c: "stopperChanList (snd ?r) = []"
    unfolding v by (simp add: exampleReceiver_def)
  have d: "cancel (snd ?r) = Some 0" unfolding v by simp
  have l: "stopperChanList (fst (snd startedState)) = [0]"
    by (simp add: startedState_eq)
  show ?thesis
    using Shutdown_after_Start_returns [OF a b c d, of None, folded startedState_def] l
    by auto
qed

text \<open>
  A \<^verbatim>\<open>Shutdown\<close> that follows one that returned, on a receiver with a cancel function
  and at least one stopper channel, panics at the first \<^verbatim>\<open>close\<close>: nothing removes
  the closed channels from \<^verbatim>\<open>stopperChanList\<close> or resets \<^verbatim>\<open>cancel\<close>.
\<close>

theorem Shutdown_again_panics:
  assumes "Shutdown kr w = Inr (err, w')" and "cancel kr = Some c"
    and "stopperChanList kr \<noteq> []"
  shows "Shutdown kr w' = Inl CloseOfClosedChannel"
proof -
  from assms(1,2) obtain cs where c: "closeAll (stopperChanList kr) (chans w) = Inr cs"
    and w': "chans w' = cs"
    by (auto simp: Shutdown_def split: sum.splits)
  have "closeAll (stopperChanList kr) cs = Inl CloseOfClosedChannel"
    using c assms(3) by (rule closeAll_again_panics)
  then show ?thesis
    using assms(2) w' by (simp add: Shutdown_def)
qed

theorem Shutdown_again_panics_witness:
  "(\<exists>w'. Shutdown (fst (snd startedState)) (snd (snd startedState)) = Inr (None, w')
      \<and> Shutdown (fst (snd startedState)) w' = Inl CloseOfClosedChannel)
   \<and> cancel (fst (snd startedState)) = Some 0
   \<and> stopperChanList (fst (snd startedState)) \<noteq> []"
proof -
  let ?k = "fst (snd startedState)" and ?w = "snd (snd startedState)"
  have c: "cancel ?k = Some 0" and l: "stopperChanList ?k \<noteq> []"
    by (simp_all add: startedState_eq)
  have "\<exists>w'. Shutdown ?k ?w = Inr (None, w')"
    by (simp add: startedState_eq Shutdown_def)
  then obtain w' where s: "Shutdown ?k ?w = Inr (None, w')" by blast
  have "Shutdown ?k w' = Inl CloseOfClosedChannel"
    using s c l by (rule Shutdown_again_panics)
  then show ?thesis using s c l by blast
qed

text \<open>
  C4. The claim says that calling \<^verbatim>\<open>Shutdown\<close> twice produces no error and no panic.
  On a receiver built by \<^verbatim>\<open>newReceiver\<close> and started with no namespace configured,
  the first \<^verbatim>\<open>Shutdown\<close> returns and the second panics: it closes the stopper channel
  that the first one closed.
\<close>

theorem Shutdown_twice_panics_example:
  "newReceiver monotonicStart None \<lparr>Namespaces = [], getK8sClient = Inr (Clientset 0)\<rparr>
     (\<lambda>_. None) = Inr (exampleReceiver monotonicStart)
   \<and> (\<exists>s. run examplePackage [] [CallStart None, CallShutdown]
          (exampleReceiver monotonicStart, emptyWorld) = Inr s)
   \<and> run examplePackage [] [CallStart None, CallShutdown, CallShutdown]
        (exampleReceiver monotonicStart, emptyWorld) = Inl CloseOfClosedChannel"
  by (simp add: newReceiver_example Start_def Shutdown_def startWatch_eq examplePackage_def
      exampleReceiver_def emptyWorld_def runCancel_def Let_def)

section \<open>The handlers\<close>

text \<open>
  C8. For every notification object, every old object, receiver and runtime state, the
  handler for "updated" notifications does what the handler for "added" notifications
  does on the new object: the same panic, or the same call of \<^verbatim>\<open>handleEvent\<close> on the
  event. An informer's dispatch of the two notifications is therefore the same.
\<close>

theorem handlers_equal:
  "UpdateFunc pkg kr w old x = AddFunc pkg kr w x
   \<and> dispatch pkg kr w i (Updated old x) = dispatch pkg kr w i (Added x)
   \<and> AddFunc pkg kr w (EventObj ev) = Inr (handleEvent pkg kr w ev)
   \<and> UpdateFunc pkg kr w old (EventObj ev) = Inr (handleEvent pkg kr w ev)"
  by (simp add: UpdateFunc_def AddFunc_def dispatch_def)

text \<open>
  C9. When the event is accepted and the consumer answers the delivered batch with an
  error, \<^verbatim>\<open>handleEvent\<close> has made exactly these calls, in this order: the transformer,
  \<^verbatim>\<open>StartLogsOp\<close>, one \<^verbatim>\<open>ConsumeLogs\<close>, and \<^verbatim>\<open>EndLogsOp\<close> with that error. The
  handler returns without a panic, and a run goes on with the calls that follow the
  notification.
\<close>

theorem handleEvent_consumer_error:
  assumes "allowEvent kr ev"
    and "logsConsumer kr (k8sEventToLogData pkg ev (rules kr)) = Some err"
  shows "handleEvent pkg kr w ev =
           w\<lparr>trace := trace w @
               [CallK8sEventToLogData ev,
                CallStartLogsOp (ctx kr),
                CallConsumeLogs (k8sEventToLogData pkg ev (rules kr)),
                CallEndLogsOp (metadataType pkg) 1 (Some err)]\<rparr>
    \<and> AddFunc pkg kr w (EventObj ev) = Inr (handleEvent pkg kr w ev)
    \<and> run pkg options (Notify i (Added (EventObj ev)) # cs) (kr, w) =
        run pkg options cs (kr, if i < length (informers w) then handleEvent pkg kr w ev else w)"
  using assms by (simp add: handleEvent_def AddFunc_def dispatch_def Let_def)

theorem handleEvent_consumer_error_witness:
  "allowEvent refusedReceiver (exampleEvent exampleStart zeroTime zeroTime)
   \<and> logsConsumer refusedReceiver
        (k8sEventToLogData examplePackage (exampleEvent exampleStart zeroTime zeroTime)
           (rules refusedReceiver)) = Some (Error ''queue full'')
   \<and> trace (handleEvent examplePackage refusedReceiver emptyWorld
        (exampleEvent exampleStart zeroTime zeroTime)) =
       [CallK8sEventToLogData (exampleEvent exampleStart zeroTime zeroTime),
        CallStartLogsOp None,
        CallConsumeLogs 2,
        CallEndLogsOp ''k8s_events'' 1 (Some (Error ''queue full''))]"
proof -
  let ?ev = "exampleEvent exampleStart zeroTime zeroTime"
  have a: "allowEvent refusedReceiver ?ev"
    by (simp add: allowEvent_def refusedReceiver_def exampleReceiver_def exampleEvent_def
        getEventTimestamp_def zeroTime_def exampleStart_def Before_irrefl)
  have c: "logsConsumer refusedReceiver
        (k8sEventToLogData examplePackage ?ev (rules refusedReceiver)) = Some (Error ''queue full'')"
    by (simp add: refusedReceiver_def)
  show ?thesis
    using handleEvent_consumer_error [OF a c, of emptyWorld] a c
    by (simp add: emptyWorld_def examplePackage_def exampleEvent_def refusedReceiver_def
        exampleReceiver_def)
qed

text \<open>
  C10. For an event that \<^verbatim>\<open>allowEvent\<close> rejects, \<^verbatim>\<open>handleEvent\<close> leaves the runtime
  state as it is: no transformer call, no consumer call, no instrumentation call.
\<close>

theorem handleEvent_rejected_no_action:
  "\<not> allowEvent kr ev \<Longrightarrow> handleEvent pkg kr w ev = w"
  by (simp add: handleEvent_def)

theorem handleEvent_rejected_no_action_witness:
  "\<not> allowEvent (exampleReceiver exampleStart) (exampleEvent zeroTime zeroTime zeroTime)
   \<and> handleEvent examplePackage (exampleReceiver exampleStart) emptyWorld
        (exampleEvent zeroTime zeroTime zeroTime) = emptyWorld"
proof -
  have r: "\<not> allowEvent (exampleReceiver exampleStart :: nat k8seventsReceiver)
             (exampleEvent zeroTime zeroTime zeroTime)"
    by (simp add: allowEvent_def exampleReceiver_def exampleEvent_def getEventTimestamp_def
        zeroTime_def exampleStart_def Before_def sec_def nsec_def hasMonotonic_val
        nsecMask_def Let_def word_sless_alt)
  show ?thesis
    using handleEvent_rejected_no_action [OF r, of examplePackage emptyWorld] r by simp
qed

end
